theory Spec2Isabelle
  imports Main "HOL-Library.Char_ord" "HOL-Library.List_Lexorder" "HOL-Library.AList"
begin

section \<open>Data of package database\<close>

text \<open>
  Modelled from the spec: the struct \<open>database.Player\<close> is declared outside
  \<open>service/player.go\<close>. Its fields are those of the spec's PlayerRecord. The
  floating-point fields (\<open>Ping\<close>, \<open>LocationX\<close>, \<open>LocationY\<close>) and the
  \<open>time.Time\<close> field \<open>LastOnline\<close> are only ever copied by this file, so their
  types stay parameters \<open>'f\<close> and \<open>'t\<close>. Every further field of the struct, none of which
  this file reads or writes, lives in the record's extension part.
\<close>

record ('f, 't) Player =
  PlayerUid :: string
  SteamId :: string
  Nickname :: string
  Ip :: string
  Ping :: 'f
  LocationX :: 'f
  LocationY :: 'f
  Level :: int
  LastOnline :: 't
  SaveLastOnline :: string

text \<open>
  Modelled from the spec: \<open>database.OnlinePlayer\<close> (the spec's OnlinePlayerSnapshot).
  The field names carry the prefix \<open>o\<close> because a record field is a global constant.
\<close>

record 'f OnlinePlayer =
  oPlayerUid :: string
  oSteamId :: string
  oNickname :: string
  oIp :: string
  oPing :: 'f
  oLocationX :: 'f
  oLocationY :: 'f
  oLevel :: int

text \<open>Modelled from the spec: \<open>database.PlayerW\<close> (the spec's WhitelistEntry).\<close>

record PlayerW =
  Name :: string
  SteamID :: string
  PlayerUID :: string

text \<open>The zero value of \<open>database.Player\<close>, as \<open>var player database.Player\<close> gives it.\<close>

definition zeroPlayer :: "('f::zero, 't::zero, 'z::zero) Player_scheme" where
  "zeroPlayer = \<lparr>PlayerUid = [], SteamId = [], Nickname = [], Ip = [], Ping = 0,
     LocationX = 0, LocationY = 0, Level = 0, LastOnline = 0, SaveLastOnline = [],
     \<dots> = 0\<rparr>"

section \<open>Errors\<close>

text \<open>
  Every error value the functions of the file can return. \<open>Json\<close> wraps whatever
  \<open>json.Marshal\<close> or \<open>json.Unmarshal\<close> reports. \<open>ErrNoRecord\<close> is the package's
  sentinel returned by \<open>GetPlayer\<close>. \<open>ErrKeyRequired\<close> and \<open>ErrKeyTooLarge\<close> are
  what the store's \<open>Put\<close> returns for a blank or an oversized key. The three
  \<open>errors.New\<close> values of the file are \<open>PlayerFound\<close> (the sentinel that stops the
  scan of \<open>findPlayerKey\<close>), \<open>WhitelistBucketMissing\<close> and \<open>PlayerNotInWhitelist\<close>.
  \<open>NilBucketPanic\<close> stands for the nil-pointer panic of calling a method on the nil
  bucket that \<open>tx.Bucket\<close> returns for a missing collection.
\<close>

datatype 'j error =
    Json 'j
  | ErrNoRecord
  | ErrKeyRequired
  | ErrKeyTooLarge
  | PlayerFound
  | WhitelistBucketMissing
  | PlayerNotInWhitelist
  | NilBucketPanic

section \<open>The store\<close>

text \<open>
  The store is the bbolt library, and the codec is \<open>encoding/json\<close>; neither is
  part of the repository. The codec is a parameter of every operation: \<open>unmarshal\<close>
  and \<open>marshal\<close> return \<open>Inl\<close> with the codec's error or \<open>Inr\<close> with the result.
  The store is modelled by what its documentation states of the calls the file makes.

  A bucket is a list of key/value pairs in the order \<open>ForEach\<close> visits them, which
  is ascending byte order of the keys. Keys are byte strings; the stored values are
  the bytes \<open>json.Marshal\<close> produced, of a type \<open>'b\<close> that the codec parameters
  read and write.
\<close>

type_synonym 'b bucket = "(string \<times> 'b) list"

definition bucket_keys :: "'b bucket \<Rightarrow> string set" where
  "bucket_keys b = fst ` set b"

definition wf_bucket :: "'b bucket \<Rightarrow> bool" where
  "wf_bucket b = sorted_wrt (<) (map fst b)"

definition Get :: "string \<Rightarrow> 'b bucket \<Rightarrow> 'b option" where
  "Get k b = map_of b k"

fun put_raw :: "string \<Rightarrow> 'b \<Rightarrow> 'b bucket \<Rightarrow> 'b bucket" where
  "put_raw k v [] = [(k, v)]"
| "put_raw k v ((k', v') # r) =
     (if k = k' then (k, v) # r
      else if k < k' then (k, v) # (k', v') # r
      else (k', v') # put_raw k v r)"

definition MaxKeySize :: nat where
  "MaxKeySize = 32768"

text \<open>
  \<open>Bucket.Put\<close> of the store: a blank key and a key longer than \<open>MaxKeySize\<close> are
  refused; otherwise the value is written, replacing the one under an equal key.
\<close>

definition Put :: "string \<Rightarrow> 'b \<Rightarrow> 'b bucket \<Rightarrow> 'j error + 'b bucket" where
  "Put k v b =
     (if k = [] then Inl ErrKeyRequired
      else if length k > MaxKeySize then Inl ErrKeyTooLarge
      else Inr (put_raw k v b))"

text \<open>\<open>Bucket.Delete\<close>: removing a key that is not there is not an error.\<close>

definition Delete :: "string \<Rightarrow> 'b bucket \<Rightarrow> 'j error + 'b bucket" where
  "Delete k b = Inr (filter (\<lambda>kv. fst kv \<noteq> k) b)"

text \<open>
  \<open>Bucket.ForEach\<close>: the callback sees each pair in key order and threads the
  variables it captures (\<open>'st\<close>); the first error it returns stops the iteration
  and is the result.
\<close>

fun ForEach :: "(string \<Rightarrow> 'b \<Rightarrow> 'st \<Rightarrow> 'st \<times> 'e option) \<Rightarrow> 'b bucket \<Rightarrow> 'st \<Rightarrow> 'st \<times> 'e option" where
  "ForEach fn [] st = (st, None)"
| "ForEach fn ((k, v) # r) st =
     (case fn k v st of
        (st', Some e) \<Rightarrow> (st', Some e)
      | (st', None) \<Rightarrow> ForEach fn r st')"

text \<open>
  The database: the two collections this file uses, each present or not.
  \<open>tx.Bucket\<close> reads the field; \<open>tx.CreateBucketIfNotExists\<close> yields the bucket,
  empty when it was missing.
\<close>

record 'b DB =
  players :: "'b bucket option"
  whitelist :: "'b bucket option"

definition CreateBucketIfNotExists :: "'b bucket option \<Rightarrow> 'j error + 'b bucket" where
  "CreateBucketIfNotExists ob = (case ob of None \<Rightarrow> Inr [] | Some b \<Rightarrow> Inr b)"

text \<open>
  \<open>db.Update\<close> runs the function in a read-write transaction: when it returns an
  error (or panics) the transaction is rolled back and the database is what it was;
  otherwise the transaction commits. \<open>db.View\<close> runs a function that only reads.
\<close>

definition Update :: "('b DB \<Rightarrow> 'e + 'b DB) \<Rightarrow> 'b DB \<Rightarrow> 'e option \<times> 'b DB" where
  "Update fn s = (case fn s of Inl e \<Rightarrow> (Some e, s) | Inr s' \<Rightarrow> (None, s'))"

definition View :: "('b DB \<Rightarrow> 'r) \<Rightarrow> 'b DB \<Rightarrow> 'r" where
  "View fn s = fn s"

section \<open>strings.Contains\<close>

fun Contains :: "string \<Rightarrow> string \<Rightarrow> bool" where
  "Contains [] substr = (substr = [])"
| "Contains (c # s) substr = (take (length substr) (c # s) = substr \<or> Contains s substr)"

section \<open>The player registry\<close>

subsection \<open>PutPlayers\<close>

text \<open>
  The callback of the first \<open>ForEach\<close> (lines 19 to 26): decode the value and file
  it in \<open>existingPlayers\<close> under the uid found in the decoded record. The Go map
  is an association list; \<open>AList.update\<close> overwrites an equal key.
\<close>

definition collect_existing ::
  "('b \<Rightarrow> 'j + ('f, 't, 'z) Player_scheme) \<Rightarrow> string \<Rightarrow> 'b
     \<Rightarrow> (string \<times> ('f, 't, 'z) Player_scheme) list
     \<Rightarrow> (string \<times> ('f, 't, 'z) Player_scheme) list \<times> 'j error option" where
  "collect_existing unmarshal k v existingPlayers =
     (case unmarshal v of
        Inl err \<Rightarrow> (existingPlayers, Some (Json err))
      | Inr player \<Rightarrow> (AList.update (PlayerUid player) player existingPlayers, None))"

text \<open>The loop of lines 33 to 35.\<close>

definition build_newPlayers ::
  "('f, 't, 'z) Player_scheme list \<Rightarrow> (string \<times> ('f, 't, 'z) Player_scheme) list" where
  "build_newPlayers ps = fold (\<lambda>p m. AList.update (PlayerUid p) p m) ps []"

text \<open>Lines 39 to 49: carry fields of the existing record over to the incoming one.\<close>

definition merge_existing ::
  "('f, 't, 'z) Player_scheme option \<Rightarrow> ('f, 't, 'z) Player_scheme \<Rightarrow> ('f, 't, 'z) Player_scheme" where
  "merge_existing ex p =
     (case ex of
        None \<Rightarrow> p
      | Some existingPlayer \<Rightarrow>
          (if SteamId p = [] then p\<lparr>SteamId := SteamId existingPlayer\<rparr> else p)
            \<lparr>Ip := Ip existingPlayer, Ping := Ping existingPlayer,
             LocationX := LocationX existingPlayer, LocationY := LocationY existingPlayer\<rparr>)"

text \<open>
  Lines 51 to 55: \<open>parse\<close> is \<open>time.Parse(time.RFC3339, _)\<close>, \<open>None\<close> when it
  returns an error.
\<close>

definition apply_save_time ::
  "(string \<Rightarrow> 't option) \<Rightarrow> ('f, 't, 'z) Player_scheme \<Rightarrow> ('f, 't, 'z) Player_scheme" where
  "apply_save_time parse p =
     (if SaveLastOnline p \<noteq> [] then
        (case parse (SaveLastOnline p) of Some parsedTime \<Rightarrow> p\<lparr>LastOnline := parsedTime\<rparr> | None \<Rightarrow> p)
      else p)"

text \<open>The loop of lines 38 to 64 over the incoming players.\<close>

fun put_players_loop ::
  "(('f, 't, 'z) Player_scheme \<Rightarrow> 'j + 'b) \<Rightarrow> (string \<Rightarrow> 't option)
     \<Rightarrow> (string \<times> ('f, 't, 'z) Player_scheme) list \<Rightarrow> ('f, 't, 'z) Player_scheme list
     \<Rightarrow> 'b bucket \<Rightarrow> 'j error + 'b bucket" where
  "put_players_loop marshal parse existingPlayers [] b = Inr b"
| "put_players_loop marshal parse existingPlayers (p0 # ps) b =
     (let p = apply_save_time parse (merge_existing (map_of existingPlayers (PlayerUid p0)) p0) in
      case marshal p of
        Inl err \<Rightarrow> Inl (Json err)
      | Inr v \<Rightarrow>
          (case Put (PlayerUid p) v b of
             Inl err \<Rightarrow> Inl err
           | Inr b' \<Rightarrow> put_players_loop marshal parse existingPlayers ps b'))"

text \<open>
  The loop of lines 67 to 73 over the keys of \<open>existingPlayers\<close>. Go visits a map
  in no fixed order; the deletions do not depend on it.
\<close>

fun delete_old_loop ::
  "(string \<times> 'p) list \<Rightarrow> string list \<Rightarrow> 'b bucket \<Rightarrow> 'j error + 'b bucket" where
  "delete_old_loop newPlayers [] b = Inr b"
| "delete_old_loop newPlayers (uid # uids) b =
     (if map_of newPlayers uid = None then
        (case Delete uid b of
           Inl err \<Rightarrow> Inl err
         | Inr b' \<Rightarrow> delete_old_loop newPlayers uids b')
      else delete_old_loop newPlayers uids b)"

definition PutPlayers_tx ::
  "('b \<Rightarrow> 'j + ('f, 't, 'z) Player_scheme) \<Rightarrow> (('f, 't, 'z) Player_scheme \<Rightarrow> 'j + 'b)
     \<Rightarrow> (string \<Rightarrow> 't option) \<Rightarrow> ('f, 't, 'z) Player_scheme list
     \<Rightarrow> 'b DB \<Rightarrow> 'j error + 'b DB" where
  "PutPlayers_tx unmarshal marshal parse ps s =
     (case players s of
        None \<Rightarrow> Inl NilBucketPanic
      | Some b \<Rightarrow>
          (case ForEach (collect_existing unmarshal) b [] of
             (existingPlayers, Some err) \<Rightarrow> Inl err
           | (existingPlayers, None) \<Rightarrow>
               (let newPlayers = build_newPlayers ps in
                case put_players_loop marshal parse existingPlayers ps b of
                  Inl err \<Rightarrow> Inl err
                | Inr b1 \<Rightarrow>
                    (case delete_old_loop newPlayers (map fst existingPlayers) b1 of
                       Inl err \<Rightarrow> Inl err
                     | Inr b2 \<Rightarrow> Inr (s\<lparr>players := Some b2\<rparr>)))))"

definition PutPlayers ::
  "('b \<Rightarrow> 'j + ('f, 't, 'z) Player_scheme) \<Rightarrow> (('f, 't, 'z) Player_scheme \<Rightarrow> 'j + 'b)
     \<Rightarrow> (string \<Rightarrow> 't option) \<Rightarrow> ('f, 't, 'z) Player_scheme list
     \<Rightarrow> 'b DB \<Rightarrow> 'j error option \<times> 'b DB" where
  "PutPlayers unmarshal marshal parse ps = Update (PutPlayers_tx unmarshal marshal parse ps)"

subsection \<open>PutPlayersOnline\<close>

text \<open>
  Lines 83 to 103: the record that one snapshot produces, from the bucket as it is
  when the snapshot is reached. \<open>now\<close> is what \<open>time.Now()\<close> returns there.
\<close>

definition online_record ::
  "('b \<Rightarrow> 'j + ('f::zero, 't::zero, 'z::zero) Player_scheme) \<Rightarrow> 't \<Rightarrow> 'b bucket
     \<Rightarrow> 'f OnlinePlayer \<Rightarrow> 'j error + ('f, 't, 'z) Player_scheme" where
  "online_record unmarshal now b p =
     (case
        (case Get (oPlayerUid p) b of
           None \<Rightarrow>
             Inr (zeroPlayer\<lparr>PlayerUid := oPlayerUid p, SteamId := oSteamId p, Nickname := oNickname p\<rparr>)
         | Some existingPlayerData \<Rightarrow>
             (case unmarshal existingPlayerData of
                Inl err \<Rightarrow> Inl (Json err)
              | Inr player \<Rightarrow>
                  Inr (if SteamId player = [] \<or> Contains (SteamId player) ''000000''
                       then player\<lparr>SteamId := oSteamId p\<rparr> else player)))
      of
        Inl err \<Rightarrow> Inl err
      | Inr player \<Rightarrow>
          Inr (player\<lparr>Ip := oIp p, Ping := oPing p, LocationX := oLocationX p,
                 LocationY := oLocationY p, Level := oLevel p, LastOnline := now\<rparr>))"

text \<open>
  The loop of lines 82 to 112. \<open>clock i\<close> is the time read while the snapshot of
  index \<open>i\<close> is processed.
\<close>

fun put_online_loop ::
  "('b \<Rightarrow> 'j + ('f::zero, 't::zero, 'z::zero) Player_scheme) \<Rightarrow> (('f, 't, 'z) Player_scheme \<Rightarrow> 'j + 'b)
     \<Rightarrow> (nat \<Rightarrow> 't) \<Rightarrow> nat \<Rightarrow> 'f OnlinePlayer list \<Rightarrow> 'b bucket \<Rightarrow> 'j error + 'b bucket" where
  "put_online_loop unmarshal marshal clock i [] b = Inr b"
| "put_online_loop unmarshal marshal clock i (p # ps) b =
     (case online_record unmarshal (clock i) b p of
        Inl err \<Rightarrow> Inl err
      | Inr player \<Rightarrow>
          (case marshal player of
             Inl err \<Rightarrow> Inl (Json err)
           | Inr v \<Rightarrow>
               (case Put (oPlayerUid p) v b of
                  Inl err \<Rightarrow> Inl err
                | Inr b' \<Rightarrow> put_online_loop unmarshal marshal clock (Suc i) ps b')))"

text \<open>
  With no snapshot the nil bucket of a missing collection is never touched; with
  one, its first use panics.
\<close>

definition PutPlayersOnline_tx ::
  "('b \<Rightarrow> 'j + ('f::zero, 't::zero, 'z::zero) Player_scheme) \<Rightarrow> (('f, 't, 'z) Player_scheme \<Rightarrow> 'j + 'b)
     \<Rightarrow> (nat \<Rightarrow> 't) \<Rightarrow> 'f OnlinePlayer list \<Rightarrow> 'b DB \<Rightarrow> 'j error + 'b DB" where
  "PutPlayersOnline_tx unmarshal marshal clock ps s =
     (case players s of
        None \<Rightarrow> (if ps = [] then Inr s else Inl NilBucketPanic)
      | Some b \<Rightarrow>
          (case put_online_loop unmarshal marshal clock 0 ps b of
             Inl err \<Rightarrow> Inl err
           | Inr b' \<Rightarrow> Inr (s\<lparr>players := Some b'\<rparr>)))"

definition PutPlayersOnline ::
  "('b \<Rightarrow> 'j + ('f::zero, 't::zero, 'z::zero) Player_scheme) \<Rightarrow> (('f, 't, 'z) Player_scheme \<Rightarrow> 'j + 'b)
     \<Rightarrow> (nat \<Rightarrow> 't) \<Rightarrow> 'f OnlinePlayer list \<Rightarrow> 'b DB \<Rightarrow> 'j error option \<times> 'b DB" where
  "PutPlayersOnline unmarshal marshal clock ps =
     Update (PutPlayersOnline_tx unmarshal marshal clock ps)"

subsection \<open>ListPlayers and GetPlayer\<close>

text \<open>
  The callback of lines 121 to 131; \<open>unmarshal_terse\<close> is \<open>json.Unmarshal\<close> into a
  \<open>database.TersePlayer\<close>, a type this file only passes on.
\<close>

definition list_step ::
  "('b \<Rightarrow> 'j + 'tp) \<Rightarrow> string \<Rightarrow> 'b \<Rightarrow> 'tp list \<Rightarrow> 'tp list \<times> 'j error option" where
  "list_step unmarshal_terse k v acc =
     (if Contains k ''000000'' then (acc, None)
      else (case unmarshal_terse v of
              Inl err \<Rightarrow> (acc, Some (Json err))
            | Inr player \<Rightarrow> (acc @ [player], None)))"

definition ListPlayers :: "('b \<Rightarrow> 'j + 'tp) \<Rightarrow> 'b DB \<Rightarrow> 'j error + 'tp list" where
  "ListPlayers unmarshal_terse =
     View (\<lambda>s. case players s of
        None \<Rightarrow> Inl NilBucketPanic
      | Some b \<Rightarrow>
          (case ForEach (list_step unmarshal_terse) b [] of
             (acc, Some err) \<Rightarrow> Inl err
           | (acc, None) \<Rightarrow> Inr acc))"

definition GetPlayer :: "('b \<Rightarrow> 'j + 'p) \<Rightarrow> string \<Rightarrow> 'b DB \<Rightarrow> 'j error + 'p" where
  "GetPlayer unmarshal playerUid =
     View (\<lambda>s. case players s of
        None \<Rightarrow> Inl NilBucketPanic
      | Some b \<Rightarrow>
          (case Get playerUid b of
             None \<Rightarrow> Inl ErrNoRecord
           | Some v \<Rightarrow>
               (case unmarshal v of
                  Inl err \<Rightarrow> Inl (Json err)
                | Inr player \<Rightarrow> Inr player)))"

section \<open>The whitelist\<close>

text \<open>Lines 262 to 277.\<close>

definition matchesCriteria :: "PlayerW \<Rightarrow> PlayerW \<Rightarrow> bool" where
  "matchesCriteria existingPlayer player =
     (if PlayerUID player \<noteq> [] \<and> PlayerUID existingPlayer = PlayerUID player then True
      else if Name player \<noteq> [] \<and> Name existingPlayer = Name player then True
      else if SteamID player \<noteq> [] \<and> SteamID existingPlayer = SteamID player then True
      else False)"

text \<open>
  The callback of \<open>findPlayerKey\<close> (lines 222 to 232); the state is the variable
  \<open>keyFound\<close>, \<open>None\<close> for nil. A key of the store is never blank, so the copy
  of a key is never nil.
\<close>

definition find_step ::
  "('b \<Rightarrow> 'j + PlayerW) \<Rightarrow> PlayerW \<Rightarrow> string \<Rightarrow> 'b \<Rightarrow> string option
     \<Rightarrow> string option \<times> 'j error option" where
  "find_step unmarshal player k v keyFound =
     (case unmarshal v of
        Inl err \<Rightarrow> (keyFound, Some (Json err))
      | Inr existingPlayer \<Rightarrow>
          (if matchesCriteria existingPlayer player then (Some k, Some PlayerFound)
           else (keyFound, None)))"

definition findPlayerKey ::
  "('b \<Rightarrow> 'j + PlayerW) \<Rightarrow> 'b bucket \<Rightarrow> PlayerW \<Rightarrow> 'j error + string option" where
  "findPlayerKey unmarshal b player =
     (case ForEach (find_step unmarshal player) b None of
        (keyFound, Some PlayerFound) \<Rightarrow> Inr keyFound
      | (keyFound, Some err) \<Rightarrow> Inl err
      | (keyFound, None) \<Rightarrow> Inr None)"

text \<open>Lines 158 to 195.\<close>

definition AddWhitelist_tx ::
  "('b \<Rightarrow> 'j + PlayerW) \<Rightarrow> (PlayerW \<Rightarrow> 'j + 'b) \<Rightarrow> PlayerW \<Rightarrow> 'b DB \<Rightarrow> 'j error + 'b DB" where
  "AddWhitelist_tx unmarshal marshal player s =
     (case CreateBucketIfNotExists (whitelist s) of
        Inl err \<Rightarrow> Inl err
      | Inr b \<Rightarrow>
          (case marshal player of
             Inl err \<Rightarrow> Inl (Json err)
           | Inr playerData \<Rightarrow>
               (case findPlayerKey unmarshal b player of
                  Inl err \<Rightarrow> Inl err
                | Inr (Some key) \<Rightarrow>
                    (case Put key playerData b of
                       Inl err \<Rightarrow> Inl err
                     | Inr b' \<Rightarrow> Inr (s\<lparr>whitelist := Some b'\<rparr>))
                | Inr None \<Rightarrow>
                    (case Put (Name player @ ''|'' @ SteamID player @ ''|'' @ PlayerUID player)
                            playerData b of
                       Inl err \<Rightarrow> Inl err
                     | Inr b' \<Rightarrow> Inr (s\<lparr>whitelist := Some b'\<rparr>)))))"

definition AddWhitelist ::
  "('b \<Rightarrow> 'j + PlayerW) \<Rightarrow> (PlayerW \<Rightarrow> 'j + 'b) \<Rightarrow> PlayerW \<Rightarrow> 'b DB
     \<Rightarrow> 'j error option \<times> 'b DB" where
  "AddWhitelist unmarshal marshal player = Update (AddWhitelist_tx unmarshal marshal player)"

text \<open>
  Lines 197 to 217. The function returns the slice built so far together with the
  error, so the result is a pair.
\<close>

definition list_w_step ::
  "('b \<Rightarrow> 'j + PlayerW) \<Rightarrow> string \<Rightarrow> 'b \<Rightarrow> PlayerW list \<Rightarrow> PlayerW list \<times> 'j error option" where
  "list_w_step unmarshal k v acc =
     (case unmarshal v of
        Inl err \<Rightarrow> (acc, Some (Json err))
      | Inr player \<Rightarrow> (acc @ [player], None))"

definition ListWhitelist ::
  "('b \<Rightarrow> 'j + PlayerW) \<Rightarrow> 'b DB \<Rightarrow> PlayerW list \<times> 'j error option" where
  "ListWhitelist unmarshal =
     View (\<lambda>s. case whitelist s of
        None \<Rightarrow> ([], None)
      | Some b \<Rightarrow> ForEach (list_w_step unmarshal) b [])"

text \<open>Lines 242 to 259.\<close>

definition RemoveWhitelist_tx ::
  "('b \<Rightarrow> 'j + PlayerW) \<Rightarrow> PlayerW \<Rightarrow> 'b DB \<Rightarrow> 'j error + 'b DB" where
  "RemoveWhitelist_tx unmarshal player s =
     (case whitelist s of
        None \<Rightarrow> Inl WhitelistBucketMissing
      | Some b \<Rightarrow>
          (case findPlayerKey unmarshal b player of
             Inl err \<Rightarrow> Inl err
           | Inr None \<Rightarrow> Inl PlayerNotInWhitelist
           | Inr (Some key) \<Rightarrow>
               (case Delete key b of
                  Inl err \<Rightarrow> Inl err
                | Inr b' \<Rightarrow> Inr (s\<lparr>whitelist := Some b'\<rparr>))))"

definition RemoveWhitelist ::
  "('b \<Rightarrow> 'j + PlayerW) \<Rightarrow> PlayerW \<Rightarrow> 'b DB \<Rightarrow> 'j error option \<times> 'b DB" where
  "RemoveWhitelist unmarshal player = Update (RemoveWhitelist_tx unmarshal player)"

text \<open>
  Lines 279 to 314. The clearing \<open>ForEach\<close> visits the pairs the bucket held when
  it started and deletes each key from the bucket as it now is.
\<close>

definition clear_step :: "string \<Rightarrow> 'b \<Rightarrow> 'b bucket \<Rightarrow> 'b bucket \<times> 'j error option" where
  "clear_step k v b = (case Delete k b of Inl err \<Rightarrow> (b, Some err) | Inr b' \<Rightarrow> (b', None))"

fun put_whitelist_loop ::
  "(PlayerW \<Rightarrow> 'j + 'b) \<Rightarrow> PlayerW list \<Rightarrow> 'b bucket \<Rightarrow> 'j error + 'b bucket" where
  "put_whitelist_loop marshal [] b = Inr b"
| "put_whitelist_loop marshal (player # ps) b =
     (case marshal player of
        Inl err \<Rightarrow> Inl (Json err)
      | Inr playerData \<Rightarrow>
          (if PlayerUID player = [] \<and> SteamID player = [] then put_whitelist_loop marshal ps b
           else
             (case Put (if PlayerUID player = [] then SteamID player else PlayerUID player)
                     playerData b of
                Inl err \<Rightarrow> Inl err
              | Inr b' \<Rightarrow> put_whitelist_loop marshal ps b')))"

definition PutWhitelist_tx ::
  "(PlayerW \<Rightarrow> 'j + 'b) \<Rightarrow> PlayerW list \<Rightarrow> 'b DB \<Rightarrow> 'j error + 'b DB" where
  "PutWhitelist_tx marshal ps s =
     (case CreateBucketIfNotExists (whitelist s) of
        Inl err \<Rightarrow> Inl err
      | Inr b \<Rightarrow>
          (case ForEach clear_step b b of
             (b0, Some err) \<Rightarrow> Inl err
           | (b0, None) \<Rightarrow>
               (case put_whitelist_loop marshal ps b0 of
                  Inl err \<Rightarrow> Inl err
                | Inr b' \<Rightarrow> Inr (s\<lparr>whitelist := Some b'\<rparr>))))"

definition PutWhitelist ::
  "(PlayerW \<Rightarrow> 'j + 'b) \<Rightarrow> PlayerW list \<Rightarrow> 'b DB \<Rightarrow> 'j error option \<times> 'b DB" where
  "PutWhitelist marshal ps = Update (PutWhitelist_tx marshal ps)"

section \<open>Notions the properties are stated with\<close>

text \<open>The stored bytes under a key of the players collection, if any.\<close>

definition stored_player :: "string \<Rightarrow> 'b DB \<Rightarrow> 'b option" where
  "stored_player uid s = (case players s of None \<Rightarrow> None | Some b \<Rightarrow> Get uid b)"

text \<open>
  The keying of the data model: a stored value that decodes is stored under the
  \<open>PlayerUid\<close> it carries.
\<close>

definition well_keyed :: "('b \<Rightarrow> 'j + ('f, 't, 'z) Player_scheme) \<Rightarrow> 'b bucket \<Rightarrow> bool" where
  "well_keyed unmarshal b = (\<forall>(k, v) \<in> set b. \<forall>p. unmarshal v = Inr p \<longrightarrow> PlayerUid p = k)"

text \<open>The codec is lossless: what \<open>json.Marshal\<close> produced decodes to the record.\<close>

definition round_trip ::
  "('b \<Rightarrow> 'j + 'p) \<Rightarrow> ('p \<Rightarrow> 'j + 'b) \<Rightarrow> bool" where
  "round_trip unmarshal marshal = (\<forall>p v. marshal p = Inr v \<longrightarrow> unmarshal v = Inr p)"

text \<open>Every stored value of a bucket decodes: the bucket holds no corrupted entry.\<close>

definition all_decode :: "('b \<Rightarrow> 'j + 'w) \<Rightarrow> 'b bucket \<Rightarrow> bool" where
  "all_decode unmarshal b = (\<forall>(k, v) \<in> set b. \<exists>e. unmarshal v = Inr e)"

text \<open>
  A stored whitelist pair matches a given entry when its value decodes to an entry
  that \<open>matchesCriteria\<close> accepts; \<open>no_other_match\<close> says that no pair under
  another key than \<open>k\<close> does; \<open>first_match\<close> is the key of the first matching
  pair in key order.
\<close>

definition entry_matches :: "('b \<Rightarrow> 'j + PlayerW) \<Rightarrow> PlayerW \<Rightarrow> string \<times> 'b \<Rightarrow> bool" where
  "entry_matches unmarshal player kv =
     (case unmarshal (snd kv) of Inl err \<Rightarrow> False | Inr e \<Rightarrow> matchesCriteria e player)"


definition first_match :: "('b \<Rightarrow> 'j + PlayerW) \<Rightarrow> PlayerW \<Rightarrow> 'b bucket \<Rightarrow> string option" where
  "first_match unmarshal player b = map_option fst (find (entry_matches unmarshal player) b)"

text \<open>
  The bulk replacement as the specification words it: an entry is stored under its
  \<open>player_uid\<close> if that is non-empty, else under its \<open>steam_id\<close> if that is
  non-empty, else it is skipped. \<open>enc\<close> gives the bytes of an entry.
\<close>

definition whitelist_identifier :: "PlayerW \<Rightarrow> string option" where
  "whitelist_identifier e =
     (if PlayerUID e \<noteq> [] then Some (PlayerUID e)
      else if SteamID e \<noteq> [] then Some (SteamID e)
      else None)"

fun replace_all_spec :: "(PlayerW \<Rightarrow> 'b) \<Rightarrow> PlayerW list \<Rightarrow> 'b bucket \<Rightarrow> 'b bucket" where
  "replace_all_spec enc [] b = b"
| "replace_all_spec enc (e # es) b =
     (case whitelist_identifier e of
        None \<Rightarrow> replace_all_spec enc es b
      | Some k \<Rightarrow> replace_all_spec enc es (put_raw k (enc e) b))"

text \<open>
  \<open>json.Marshal\<close> succeeds on the given entries, with \<open>enc\<close> as its result, and
  the identifiers of the entries are within the key size the store accepts.
\<close>

definition encodes :: "(PlayerW \<Rightarrow> 'j + 'b) \<Rightarrow> (PlayerW \<Rightarrow> 'b) \<Rightarrow> PlayerW list \<Rightarrow> bool" where
  "encodes marshal enc ps = (\<forall>e \<in> set ps. marshal e = Inr (enc e))"

definition ids_fit :: "PlayerW list \<Rightarrow> bool" where
  "ids_fit ps =
     (\<forall>e \<in> set ps. length (PlayerUID e) \<le> MaxKeySize \<and> length (SteamID e) \<le> MaxKeySize)"

section \<open>Concrete data for the example runs\<close>

text \<open>
  In the example runs the stored bytes of a record are the record itself, so the codec
  is the identity and never fails. The extension part of an example player is a
  number, times are seconds, and the parser of the examples knows one RFC 3339
  timestamp.
\<close>

type_synonym demo_rec = "(int, nat, nat) Player_scheme"

definition demo_player :: "string \<Rightarrow> string \<Rightarrow> string \<Rightarrow> string \<Rightarrow> demo_rec" where
  "demo_player uid steam nick ip =
     \<lparr>PlayerUid = uid, SteamId = steam, Nickname = nick, Ip = ip, Ping = 20,
      LocationX = 3, LocationY = 4, Level = 7, LastOnline = 100, SaveLastOnline = [],
      \<dots> = 0\<rparr>"

definition demo_existing :: demo_rec where
  "demo_existing =
     (demo_player ''u1'' ''s1'' ''old'' ''1.1.1.1'')\<lparr>Ping := 55, LocationX := 11, LocationY := 12\<rparr>"

definition demo_incoming :: demo_rec where
  "demo_incoming =
     (demo_player ''u1'' [] ''new'' ''2.2.2.2'')
       \<lparr>Level := 9, LastOnline := 5, SaveLastOnline := ''2024-01-01T00:00:00Z''\<rparr>"

definition demo_online :: "string \<Rightarrow> string \<Rightarrow> int OnlinePlayer" where
  "demo_online uid steam =
     \<lparr>oPlayerUid = uid, oSteamId = steam, oNickname = ''nick'', oIp = ''10.0.0.9'', oPing = 35,
      oLocationX = 8, oLocationY = 9, oLevel = 12\<rparr>"

definition demo_unmarshal :: "demo_rec \<Rightarrow> unit + demo_rec" where
  "demo_unmarshal v = Inr v"

definition demo_marshal :: "demo_rec \<Rightarrow> unit + demo_rec" where
  "demo_marshal p = Inr p"

definition demo_terse :: "demo_rec \<Rightarrow> unit + string \<times> string" where
  "demo_terse v = Inr (PlayerUid v, Nickname v)"

definition demo_parse :: "string \<Rightarrow> nat option" where
  "demo_parse str = (if str = ''2024-01-01T00:00:00Z'' then Some 1704067200 else None)"

definition demo_clock :: "nat \<Rightarrow> nat" where
  "demo_clock i = 1700000000 + i"

definition demo_db :: "'b bucket \<Rightarrow> 'b DB" where
  "demo_db b = \<lparr>players = Some b, whitelist = None\<rparr>"

definition demo_unmarshal_w :: "PlayerW \<Rightarrow> unit + PlayerW" where
  "demo_unmarshal_w v = Inr v"

definition demo_marshal_w :: "PlayerW \<Rightarrow> unit + PlayerW" where
  "demo_marshal_w e = Inr e"

definition demo_enc_w :: "PlayerW \<Rightarrow> PlayerW" where
  "demo_enc_w e = e"

definition demo_wl_db :: "PlayerW bucket option \<Rightarrow> PlayerW DB" where
  "demo_wl_db w = \<lparr>players = Some [], whitelist = w\<rparr>"

lemmas run_defs =
  PutPlayers_def Update_def View_def PutPlayers_tx_def collect_existing_def build_newPlayers_def
  merge_existing_def apply_save_time_def Put_def Delete_def MaxKeySize_def Get_def
  PutPlayersOnline_def PutPlayersOnline_tx_def online_record_def zeroPlayer_def
  ListPlayers_def list_step_def GetPlayer_def
  matchesCriteria_def find_step_def findPlayerKey_def AddWhitelist_def AddWhitelist_tx_def
  CreateBucketIfNotExists_def ListWhitelist_def list_w_step_def RemoveWhitelist_def
  RemoveWhitelist_tx_def clear_step_def PutWhitelist_def PutWhitelist_tx_def
  stored_player_def bucket_keys_def well_keyed_def wf_bucket_def all_decode_def
  entry_matches_def first_match_def whitelist_identifier_def encodes_def ids_fit_def
  demo_player_def demo_existing_def demo_incoming_def demo_online_def demo_unmarshal_def demo_marshal_def demo_terse_def
  demo_parse_def demo_clock_def demo_db_def demo_unmarshal_w_def demo_marshal_w_def
  demo_enc_w_def demo_wl_db_def

section \<open>Facts about the store and the loops\<close>

subsection \<open>Substring test and buckets\<close>

lemma Contains_iff: "Contains s sub \<longleftrightarrow> (\<exists>a b. s = a @ sub @ b)"
proof (induction s)
  case Nil
  then show ?case by auto
next
  case (Cons c s)
  have "take (length sub) (c # s) = sub \<longleftrightarrow> (\<exists>b. c # s = sub @ b)"
    by (metis append_eq_conv_conj append_take_drop_id)
  moreover have "(\<exists>a b. c # s = a @ sub @ b) \<longleftrightarrow> (\<exists>b. c # s = sub @ b) \<or> (\<exists>a b. s = a @ sub @ b)"
  proof
    assume "\<exists>a b. c # s = a @ sub @ b"
    then obtain a b where ab: "c # s = a @ sub @ b" by blast
    show "(\<exists>b. c # s = sub @ b) \<or> (\<exists>a b. s = a @ sub @ b)"
    proof (cases a)
      case Nil
      with ab show ?thesis by auto
    next
      case (Cons x a')
      with ab have "s = a' @ sub @ b" by simp
      then show ?thesis by blast
    qed
  next
    assume "(\<exists>b. c # s = sub @ b) \<or> (\<exists>a b. s = a @ sub @ b)"
    then show "\<exists>a b. c # s = a @ sub @ b"
    proof
      assume "\<exists>b. c # s = sub @ b"
      then show ?thesis by (metis append_Nil)
    next
      assume "\<exists>a b. s = a @ sub @ b"
      then obtain a b where "s = a @ sub @ b" by blast
      then have "c # s = (c # a) @ sub @ b" by simp
      then show ?thesis by blast
    qed
  qed
  ultimately show ?case using Cons.IH by simp
qed

lemma map_fst_put_raw: "set (map fst (put_raw k v b)) = insert k (set (map fst b))"
proof (induction b)
  case Nil
  then show ?case by simp
next
  case (Cons a b)
  obtain k' v' where a: "a = (k', v')" by (cases a)
  show ?case using Cons.IH unfolding a by (simp add: insert_commute)
qed

lemma bucket_keys_put_raw: "bucket_keys (put_raw k v b) = insert k (bucket_keys b)"
  using map_fst_put_raw[of k v b] by (simp add: bucket_keys_def)

lemma map_of_put_raw: "map_of (put_raw k v b) = (map_of b)(k \<mapsto> v)"
  by (induction b) (auto simp: fun_eq_iff)

lemma wf_put_raw: "wf_bucket b \<Longrightarrow> wf_bucket (put_raw k v b)"
  unfolding wf_bucket_def
proof (induction b)
  case Nil
  then show ?case by simp
next
  case (Cons a b)
  obtain k' v' where a: "a = (k', v')" by (cases a)
  from Cons have "\<forall>x\<in>set (map fst (put_raw k v b)). k' < x" if "k' < k"
    using that unfolding map_fst_put_raw by (auto simp: a)
  with Cons show ?case
    by (auto simp: a)
qed

lemma wf_delete: "wf_bucket b \<Longrightarrow> wf_bucket (filter (\<lambda>kv. fst kv \<noteq> k) b)"
  unfolding wf_bucket_def by (induction b) auto


lemma map_of_delete_key:
  "map_of (filter (\<lambda>kv. fst kv \<noteq> k) b) u = (if u = k then None else map_of b u)"
  by (induction b) auto

lemma distinct_wf_bucket: "wf_bucket b \<Longrightarrow> distinct (map fst b)"
  unfolding wf_bucket_def by (induction b) auto

lemma Put_Inr_iff: "Put k v b = Inr b' \<longleftrightarrow> k \<noteq> [] \<and> length k \<le> MaxKeySize \<and> b' = put_raw k v b"
  by (auto simp: Put_def)


lemma ForEach_Cons_None:
  "ForEach fn ((k, v) # r) st = (st2, None) \<longleftrightarrow>
     (\<exists>st1. fn k v st = (st1, None) \<and> ForEach fn r st1 = (st2, None))"
  by (auto split: prod.splits option.splits)

subsection \<open>The loops of PutPlayers\<close>

lemma fst_set_AList_update: "fst ` set (AList.update k v al) = insert k (fst ` set al)"
  using AList.dom_update[of k v al] by (simp add: dom_map_of_conv_image_fst)

lemma collect_existing_None:
  "collect_existing un k v acc = (st1, None) \<longleftrightarrow>
     (\<exists>p. un v = Inr p \<and> st1 = AList.update (PlayerUid p) p acc)"
  by (auto simp: collect_existing_def split: sum.splits)



lemma collect_existing_lookup:
  "ForEach (collect_existing un) b acc = (ex, None) \<Longrightarrow> well_keyed un b \<Longrightarrow>
   distinct (map fst b) \<Longrightarrow>
     map_of ex u = (case map_of b u of None \<Rightarrow> map_of acc u
                    | Some v \<Rightarrow> (case un v of Inl err \<Rightarrow> None | Inr p \<Rightarrow> Some p))"
proof (induction b arbitrary: acc)
  case Nil
  then show ?case by simp
next
  case (Cons a b)
  obtain k v where a: "a = (k, v)" by (cases a)
  from Cons.prems(1) obtain p where p: "un v = Inr p"
    and rest: "ForEach (collect_existing un) b (AList.update (PlayerUid p) p acc) = (ex, None)"
    unfolding a ForEach_Cons_None collect_existing_None by blast
  from Cons.prems(2) p have pk: "PlayerUid p = k" and wk: "well_keyed un b"
    by (auto simp: well_keyed_def a)
  from Cons.prems(3) have d: "distinct (map fst b)" and kb: "map_of b k = None"
    by (auto simp: a map_of_eq_None_iff)
  show ?case
    using Cons.IH[OF rest wk d] p pk kb
    by (auto simp: a update_conv' split: option.splits)
qed

lemma PlayerUid_merge_existing [simp]: "PlayerUid (merge_existing ex p) = PlayerUid p"
  by (simp add: merge_existing_def split: option.splits)

lemma PlayerUid_apply_save_time [simp]: "PlayerUid (apply_save_time parse p) = PlayerUid p"
  by (simp add: apply_save_time_def split: option.splits)

lemma merge_existing_Some:
  "merge_existing (Some e) p =
     p\<lparr>SteamId := (if SteamId p = [] then SteamId e else SteamId p), Ip := Ip e, Ping := Ping e,
       LocationX := LocationX e, LocationY := LocationY e\<rparr>"
  by (simp add: merge_existing_def)

lemma apply_save_time_only_LastOnline:
  "apply_save_time parse m = m\<lparr>LastOnline := LastOnline (apply_save_time parse m)\<rparr>"
  by (simp add: apply_save_time_def split: option.splits)


lemma put_players_loop_other:
  "put_players_loop mar parse ex ps b = Inr b1 \<Longrightarrow> u \<notin> PlayerUid ` set ps \<Longrightarrow>
     map_of b1 u = map_of b u"
proof (induction ps arbitrary: b)
  case Nil
  then show ?case by simp
next
  case (Cons p ps)
  from Cons.prems(1) obtain v where
    rest: "put_players_loop mar parse ex ps (put_raw (PlayerUid p) v b) = Inr b1"
    by (auto simp: Let_def Put_def split: sum.splits if_splits)
  from Cons.IH[OF rest] Cons.prems(2) show ?case
    by (auto simp: map_of_put_raw)
qed

lemma put_players_loop_last:
  "put_players_loop mar parse ex (ps1 @ p # ps2) b = Inr b1 \<Longrightarrow>
   PlayerUid p \<notin> PlayerUid ` set ps2 \<Longrightarrow>
     \<exists>v. map_of b1 (PlayerUid p) = Some v \<and>
         mar (apply_save_time parse (merge_existing (map_of ex (PlayerUid p)) p)) = Inr v"
proof (induction ps1 arbitrary: b)
  case Nil
  from Nil(1) obtain v where
    v: "mar (apply_save_time parse (merge_existing (map_of ex (PlayerUid p)) p)) = Inr v"
    and rest: "put_players_loop mar parse ex ps2 (put_raw (PlayerUid p) v b) = Inr b1"
    by (auto simp: Let_def Put_def split: sum.splits if_splits)
  from put_players_loop_other[OF rest Nil(2)] v show ?case
    by (simp add: map_of_put_raw)
next
  case (Cons q ps1)
  from Cons.prems(1) obtain v where
    rest: "put_players_loop mar parse ex (ps1 @ p # ps2) (put_raw (PlayerUid q) v b) = Inr b1"
    by (auto simp: Let_def Put_def split: sum.splits if_splits)
  from Cons.IH[OF rest Cons.prems(2)] show ?case .
qed


lemma delete_old_loop_lookup:
  "(delete_old_loop new uids b1 :: 'j error + 'b bucket) = Inr b2 \<Longrightarrow>
     map_of b2 u = (if u \<in> set uids \<and> map_of new u = None then None else map_of b1 u)"
proof (induction uids arbitrary: b1)
  case Nil
  then show ?case by simp
next
  case (Cons w uids)
  show ?case
  proof (cases "map_of new w = None")
    case True
    with Cons.prems
    have "(delete_old_loop new uids (filter (\<lambda>kv. fst kv \<noteq> w) b1) :: 'j error + 'b bucket) = Inr b2"
      by (simp add: Delete_def)
    from Cons.IH[OF this] True show ?thesis
      by (auto simp: map_of_delete_key)
  next
    case False
    with Cons.prems have "(delete_old_loop new uids b1 :: 'j error + 'b bucket) = Inr b2" by simp
    from Cons.IH[OF this] False show ?thesis by auto
  qed
qed

lemma fold_update_keys:
  "fst ` set (fold (\<lambda>p m. AList.update (PlayerUid p) p m) ps m0) = fst ` set m0 \<union> PlayerUid ` set ps"
  by (induction ps arbitrary: m0) (auto simp: fst_set_AList_update)

lemma build_newPlayers_None: "map_of (build_newPlayers ps) u = None \<longleftrightarrow> u \<notin> PlayerUid ` set ps"
  using fold_update_keys[of ps "[]"] by (simp add: build_newPlayers_def map_of_eq_None_iff)

subsection \<open>The loops of PutPlayersOnline and ListPlayers\<close>

lemma put_online_loop_frame:
  "put_online_loop un mar clock i ps b = Inr b' \<Longrightarrow>
     (u \<notin> oPlayerUid ` set ps \<longrightarrow> map_of b' u = map_of b u) \<and>
     (map_of b u \<noteq> None \<longrightarrow> map_of b' u \<noteq> None)"
proof (induction ps arbitrary: b i)
  case Nil
  then show ?case by simp
next
  case (Cons p ps)
  from Cons.prems obtain v where
    rest: "put_online_loop un mar clock (Suc i) ps (put_raw (oPlayerUid p) v b) = Inr b'"
    by (auto simp: Put_def split: sum.splits if_splits)
  from Cons.IH[OF rest] show ?case
    by (auto simp: map_of_put_raw)
qed

lemma ForEach_list_step:
  "ForEach (list_step unt) b acc = (out, None) \<Longrightarrow>
     map Inr out = map Inr acc @ map (unt \<circ> snd) (filter (\<lambda>kv. \<not> Contains (fst kv) ''000000'') b)"
proof (induction b arbitrary: acc)
  case Nil
  then show ?case by simp
next
  case (Cons a b)
  obtain k v where a: "a = (k, v)" by (cases a)
  from Cons.prems obtain acc1 where st: "list_step unt k v acc = (acc1, None)"
    and rest: "ForEach (list_step unt) b acc1 = (out, None)"
    unfolding a ForEach_Cons_None by blast
  from st Cons.IH[OF rest] show ?case
    by (auto simp: a list_step_def split: if_splits sum.splits)
qed

subsection \<open>The scans of the whitelist\<close>

lemma ForEach_find_step:
  "all_decode un b \<Longrightarrow>
     ForEach (find_step un player) b kf =
       (case first_match un player b of
          None \<Rightarrow> (kf, None)
        | Some k \<Rightarrow> (Some k, Some PlayerFound))"
proof (induction b arbitrary: kf)
  case Nil
  then show ?case by (simp add: first_match_def)
next
  case (Cons a b)
  obtain k v where a: "a = (k, v)" by (cases a)
  from Cons.prems obtain e where e: "un v = Inr e" and ad: "all_decode un b"
    by (auto simp: all_decode_def a)
  show ?case
  proof (cases "matchesCriteria e player")
    case True
    with e show ?thesis
      by (simp add: a find_step_def first_match_def entry_matches_def)
  next
    case False
    with e Cons.IH[OF ad, of kf] show ?thesis
      by (simp add: a find_step_def first_match_def entry_matches_def)
  qed
qed

lemma findPlayerKey_first_match:
  "all_decode un b \<Longrightarrow> findPlayerKey un b player = Inr (first_match un player b)"
  by (simp add: findPlayerKey_def ForEach_find_step split: option.splits)

lemma first_match_None:
  "first_match un player b = None \<longleftrightarrow> (\<forall>kv \<in> set b. \<not> entry_matches un player kv)"
  by (auto simp: first_match_def find_None_iff)

lemma matchesCriteria_empty:
  "matchesCriteria e \<lparr>Name = [], SteamID = [], PlayerUID = []\<rparr> = False"
  by (simp add: matchesCriteria_def)


lemma ForEach_clear_step:
  "ForEach (clear_step :: string \<Rightarrow> 'b \<Rightarrow> 'b bucket \<Rightarrow> 'b bucket \<times> 'j error option) es b =
     (filter (\<lambda>kv. fst kv \<notin> fst ` set es) b, None)"
proof (induction es arbitrary: b)
  case Nil
  then show ?case by simp
next
  case (Cons a es)
  obtain k v where a: "a = (k, v)" by (cases a)
  have "filter (\<lambda>kv. fst kv \<notin> fst ` set es) (filter (\<lambda>kv. fst kv \<noteq> k) b) =
        filter (\<lambda>kv. fst kv \<notin> fst ` set (a # es)) b"
    by (induction b) (auto simp: a)
  with Cons.IH show ?case
    by (simp add: a clear_step_def Delete_def)
qed

lemma ForEach_clear_all:
  "ForEach (clear_step :: string \<Rightarrow> 'b \<Rightarrow> 'b bucket \<Rightarrow> 'b bucket \<times> 'j error option) b b = ([], None)"
  unfolding ForEach_clear_step by (simp add: filter_empty_conv)

lemma put_whitelist_loop_spec:
  "encodes marshal enc ps \<Longrightarrow> ids_fit ps \<Longrightarrow>
     put_whitelist_loop marshal ps b = Inr (replace_all_spec enc ps b)"
proof (induction ps arbitrary: b)
  case Nil
  then show ?case by simp
next
  case (Cons e ps)
  from Cons.prems have e: "marshal e = Inr (enc e)" and rest: "encodes marshal enc ps" "ids_fit ps"
    and fit: "length (PlayerUID e) \<le> MaxKeySize" "length (SteamID e) \<le> MaxKeySize"
    by (auto simp: encodes_def ids_fit_def)
  show ?case
    using e fit Cons.IH[OF rest]
    by (simp add: whitelist_identifier_def Put_def)
qed

lemma replace_all_spec_keys:
  "bucket_keys (replace_all_spec enc ps b) =
     bucket_keys b \<union> {k. \<exists>e \<in> set ps. whitelist_identifier e = Some k}"
  by (induction ps arbitrary: b) (auto simp: bucket_keys_put_raw split: option.splits)

subsection \<open>The keying of the players collection is an invariant\<close>

text \<open>
  With a lossless codec the two writers of the players collection keep every record
  under the uid it carries, whether they succeed or fail.
\<close>

lemma set_put_raw: "set (put_raw k v b) \<subseteq> insert (k, v) (set b)"
proof (induction b)
  case Nil
  then show ?case by simp
next
  case (Cons a b)
  obtain k' v' where a: "a = (k', v')" by (cases a)
  from Cons.IH show ?case unfolding a by (simp add: subset_iff) blast
qed

lemma well_keyed_put_raw:
  "well_keyed un b \<Longrightarrow> un v = Inr p \<Longrightarrow> PlayerUid p = k \<Longrightarrow> well_keyed un (put_raw k v b)"
  using set_put_raw[of k v b] unfolding well_keyed_def by fastforce

lemma well_keyed_filter: "well_keyed un b \<Longrightarrow> well_keyed un (filter P b)"
  unfolding well_keyed_def by auto

lemma put_players_loop_well_keyed:
  "put_players_loop mar parse ex ps b = Inr b1 \<Longrightarrow> round_trip un mar \<Longrightarrow> well_keyed un b \<Longrightarrow>
     well_keyed un b1"
proof (induction ps arbitrary: b)
  case Nil
  then show ?case by simp
next
  case (Cons p ps)
  let ?q = "apply_save_time parse (merge_existing (map_of ex (PlayerUid p)) p)"
  from Cons.prems(1) obtain v where v: "mar ?q = Inr v"
    and rest: "put_players_loop mar parse ex ps (put_raw (PlayerUid p) v b) = Inr b1"
    by (auto simp: Let_def Put_def split: sum.splits if_splits)
  from v Cons.prems(2) have "un v = Inr ?q" by (simp add: round_trip_def)
  from well_keyed_put_raw[OF Cons.prems(3) this] have "well_keyed un (put_raw (PlayerUid p) v b)"
    by simp
  from Cons.IH[OF rest Cons.prems(2) this] show ?case .
qed

lemma delete_old_loop_well_keyed:
  "(delete_old_loop new uids b1 :: 'j error + 'b bucket) = Inr b2 \<Longrightarrow> well_keyed un b1 \<Longrightarrow>
     well_keyed un b2"
proof (induction uids arbitrary: b1)
  case Nil
  then show ?case by simp
next
  case (Cons u uids)
  show ?case
  proof (cases "map_of new u = None")
    case True
    with Cons.prems(1)
    have "(delete_old_loop new uids (filter (\<lambda>kv. fst kv \<noteq> u) b1) :: 'j error + 'b bucket) = Inr b2"
      by (simp add: Delete_def)
    from Cons.IH[OF this well_keyed_filter[OF Cons.prems(2)]] show ?thesis .
  next
    case False
    with Cons.prems(1) have "(delete_old_loop new uids b1 :: 'j error + 'b bucket) = Inr b2" by simp
    from Cons.IH[OF this Cons.prems(2)] show ?thesis .
  qed
qed

lemma PutPlayers_keeps_well_keyed:
  fixes unmarshal :: "'b \<Rightarrow> 'j + ('f, 't, 'z) Player_scheme"
  assumes "round_trip unmarshal marshal" and "players s = Some b" and "well_keyed unmarshal b"
    and "PutPlayers unmarshal marshal parse ps s = (r, s')"
  shows "\<exists>b'. players s' = Some b' \<and> well_keyed unmarshal b'"
proof (cases r)
  case (Some e)
  with assms(4) have "s' = s" by (auto simp: PutPlayers_def Update_def split: sum.splits)
  with assms(2,3) show ?thesis by simp
next
  case None
  with assms(2,4) obtain ex b1 b2 where
    b1: "put_players_loop marshal parse ex ps b = Inr b1"
    and b2: "(delete_old_loop (build_newPlayers ps) (map fst ex) b1 :: 'j error + 'b bucket) = Inr b2"
    and s': "s' = s\<lparr>players := Some b2\<rparr>"
    by (auto simp: PutPlayers_def Update_def PutPlayers_tx_def Let_def
        split: sum.splits option.splits prod.splits)
  from delete_old_loop_well_keyed[OF b2 put_players_loop_well_keyed[OF b1 assms(1,3)]] s'
  show ?thesis by simp
qed

lemma online_record_uid:
  "online_record un now b p = Inr r \<Longrightarrow> well_keyed un b \<Longrightarrow> PlayerUid r = oPlayerUid p"
  by (auto simp: online_record_def Get_def well_keyed_def zeroPlayer_def
      split: option.splits sum.splits if_splits dest!: map_of_SomeD)

lemma put_online_loop_well_keyed:
  "put_online_loop un mar clock i ps b = Inr b' \<Longrightarrow> round_trip un mar \<Longrightarrow> well_keyed un b \<Longrightarrow>
     well_keyed un b'"
proof (induction ps arbitrary: b i)
  case Nil
  then show ?case by simp
next
  case (Cons p ps)
  from Cons.prems(1) obtain r v where r: "online_record un (clock i) b p = Inr r"
    and v: "mar r = Inr v"
    and rest: "put_online_loop un mar clock (Suc i) ps (put_raw (oPlayerUid p) v b) = Inr b'"
    by (auto simp: Put_def split: sum.splits if_splits)
  from v Cons.prems(2) have "un v = Inr r" by (simp add: round_trip_def)
  from well_keyed_put_raw[OF Cons.prems(3) this online_record_uid[OF r Cons.prems(3)]]
  have "well_keyed un (put_raw (oPlayerUid p) v b)" .
  from Cons.IH[OF rest Cons.prems(2) this] show ?case .
qed

lemma PutPlayersOnline_keeps_well_keyed:
  assumes "round_trip unmarshal marshal" and "players s = Some b" and "well_keyed unmarshal b"
    and "PutPlayersOnline unmarshal marshal clock ps s = (r, s')"
  shows "\<exists>b'. players s' = Some b' \<and> well_keyed unmarshal b'"
proof (cases r)
  case (Some e)
  with assms(4) have "s' = s" by (auto simp: PutPlayersOnline_def Update_def split: sum.splits)
  with assms(2,3) show ?thesis by simp
next
  case None
  with assms(2,4) obtain b' where b': "put_online_loop unmarshal marshal clock 0 ps b = Inr b'"
    and s': "s' = s\<lparr>players := Some b'\<rparr>"
    by (auto simp: PutPlayersOnline_def Update_def PutPlayersOnline_tx_def split: sum.splits)
  from put_online_loop_well_keyed[OF b' assms(1,3)] s' show ?thesis by simp
qed

section \<open>The claims\<close>







text \<open>
  C3 (session fields are carried forward). For an incoming snapshot \<open>p\<close> whose uid has
  a stored record \<open>e\<close>, the merged record \<open>m\<close> keeps \<open>ip\<close>, \<open>ping\<close>,
  \<open>location_x\<close> and \<open>location_y\<close> of \<open>e\<close>, keeps the \<open>steam_id\<close> of \<open>e\<close>
  when that of \<open>p\<close> is empty, and has the value of \<open>p\<close> in every other field.
  What is stored under the uid is the encoding of \<open>m\<close> after the timestamp step,
  which changes no field but \<open>last_online\<close>.
\<close>

theorem PutPlayers_carry_forward:
  fixes unmarshal :: "'b \<Rightarrow> 'j + ('f, 't, 'z) Player_scheme"
  assumes "players s = Some b" and "wf_bucket b" and "well_keyed unmarshal b"
    and "Get (PlayerUid p) b = Some data" and "unmarshal data = Inr e"
    and "PlayerUid p \<notin> PlayerUid ` set ps2"
    and "PutPlayers unmarshal marshal parse (ps1 @ p # ps2) s = (None, s')"
  shows "\<exists>m v. m = p\<lparr>SteamId := (if SteamId p = [] then SteamId e else SteamId p),
                      Ip := Ip e, Ping := Ping e,
                      LocationX := LocationX e, LocationY := LocationY e\<rparr> \<and>
               m = merge_existing (Some e) p \<and>
               marshal (apply_save_time parse m) = Inr v \<and>
               apply_save_time parse m = m\<lparr>LastOnline := LastOnline (apply_save_time parse m)\<rparr> \<and>
               stored_player (PlayerUid p) s' = Some v"
proof -
  let ?ps = "ps1 @ p # ps2"
  from assms(1,7) obtain ex b1 b2 where
    ex: "ForEach (collect_existing unmarshal) b [] = (ex, None)"
    and b1: "put_players_loop marshal parse ex ?ps b = Inr b1"
    and b2: "(delete_old_loop (build_newPlayers ?ps) (map fst ex) b1 :: 'j error + 'b bucket) = Inr b2"
    and s': "s' = s\<lparr>players := Some b2\<rparr>"
    by (auto simp: PutPlayers_def Update_def PutPlayers_tx_def Let_def
        split: sum.splits option.splits prod.splits)
  from collect_existing_lookup[OF ex assms(3) distinct_wf_bucket[OF assms(2)], of "PlayerUid p"]
    assms(4,5)
  have exu: "map_of ex (PlayerUid p) = Some e" by (simp add: Get_def)
  from put_players_loop_last[OF b1 assms(6)] exu obtain v where
    v1: "map_of b1 (PlayerUid p) = Some v"
    and v2: "marshal (apply_save_time parse (merge_existing (Some e) p)) = Inr v" by auto
  have "map_of (build_newPlayers ?ps) (PlayerUid p) \<noteq> None"
    by (simp add: build_newPlayers_None)
  with delete_old_loop_lookup[OF b2, of "PlayerUid p"] v1
  have "map_of b2 (PlayerUid p) = Some v" by simp
  with s' have "stored_player (PlayerUid p) s' = Some v"
    by (simp add: stored_player_def Get_def)
  with v2 show ?thesis
    using merge_existing_Some[of e p] apply_save_time_only_LastOnline[of parse "merge_existing (Some e) p"]
    by metis
qed

text \<open>
  A run that meets the hypotheses: the stored record has ip \<open>1.1.1.1\<close>, steam id
  \<open>s1\<close> and nickname \<open>old\<close>; the snapshot has ip \<open>2.2.2.2\<close>, no steam id,
  nickname \<open>new\<close> and a timestamp that parses. What is stored afterwards has ip
  \<open>1.1.1.1\<close>, steam id \<open>s1\<close>, nickname \<open>new\<close> and the parsed time.
\<close>

theorem PutPlayers_carry_forward_witness:
  "players (demo_db [(''u1'', demo_existing)]) = Some [(''u1'', demo_existing)] \<and>
   wf_bucket [(''u1'', demo_existing)] \<and>
   well_keyed demo_unmarshal [(''u1'', demo_existing)] \<and>
   Get (PlayerUid demo_incoming) [(''u1'', demo_existing)] = Some demo_existing \<and>
   demo_unmarshal demo_existing = Inr demo_existing \<and>
   PlayerUid demo_incoming \<notin> PlayerUid ` set [demo_player ''u2'' ''s2'' ''bob'' []] \<and>
   PutPlayers demo_unmarshal demo_marshal demo_parse
       ([] @ demo_incoming # [demo_player ''u2'' ''s2'' ''bob'' []]) (demo_db [(''u1'', demo_existing)])
     = (None, demo_db [(''u1'', demo_incoming\<lparr>SteamId := ''s1'', Ip := ''1.1.1.1'', Ping := 55,
                                  LocationX := 11, LocationY := 12, LastOnline := 1704067200\<rparr>),
                       (''u2'', demo_player ''u2'' ''s2'' ''bob'' [])]) \<and>
   (\<exists>m v. m = demo_incoming\<lparr>SteamId := ''s1'', Ip := ''1.1.1.1'', Ping := 55,
                              LocationX := 11, LocationY := 12\<rparr> \<and>
      Nickname m = ''new'' \<and> Level m = 9 \<and>
      demo_marshal (apply_save_time demo_parse m) = Inr v \<and>
      stored_player ''u1''
        (demo_db [(''u1'', demo_incoming\<lparr>SteamId := ''s1'', Ip := ''1.1.1.1'', Ping := 55,
                                  LocationX := 11, LocationY := 12, LastOnline := 1704067200\<rparr>),
                  (''u2'', demo_player ''u2'' ''s2'' ''bob'' [])]) = Some v)"
proof -
  have h1: "players (demo_db [(''u1'', demo_existing)]) = Some [(''u1'', demo_existing)]"
    by (simp add: demo_db_def)
  have h2: "wf_bucket [(''u1'', demo_existing)]"
    by (simp add: wf_bucket_def)
  have h3: "well_keyed demo_unmarshal [(''u1'', demo_existing)]"
    by (simp add: run_defs)
  have h4: "Get (PlayerUid demo_incoming) [(''u1'', demo_existing)] = Some demo_existing"
    by (simp add: run_defs)
  have h5: "demo_unmarshal demo_existing = Inr demo_existing"
    by (simp add: demo_unmarshal_def)
  have h6: "PlayerUid demo_incoming \<notin> PlayerUid ` set [demo_player ''u2'' ''s2'' ''bob'' []]"
    by (simp add: run_defs)
  have h7: "PutPlayers demo_unmarshal demo_marshal demo_parse
       ([] @ demo_incoming # [demo_player ''u2'' ''s2'' ''bob'' []]) (demo_db [(''u1'', demo_existing)])
     = (None, demo_db [(''u1'', demo_incoming\<lparr>SteamId := ''s1'', Ip := ''1.1.1.1'', Ping := 55,
                                  LocationX := 11, LocationY := 12, LastOnline := 1704067200\<rparr>),
                       (''u2'', demo_player ''u2'' ''s2'' ''bob'' [])])"
    by (simp add: run_defs)
  have c: "SteamId demo_incoming = []" "SteamId demo_existing = ''s1''" "Ip demo_existing = ''1.1.1.1''"
    "Ping demo_existing = 55" "LocationX demo_existing = 11" "LocationY demo_existing = 12"
    "PlayerUid demo_incoming = ''u1''" "Nickname demo_incoming = ''new''" "Level demo_incoming = 9"
    by (simp_all add: run_defs)
  from PutPlayers_carry_forward[OF h1 h2 h3 h4 h5 h6 h7]
  obtain m v where
    "m = demo_incoming\<lparr>SteamId := ''s1'', Ip := ''1.1.1.1'', Ping := 55,
                              LocationX := 11, LocationY := 12\<rparr>"
    "demo_marshal (apply_save_time demo_parse m) = Inr v"
    "stored_player ''u1''
        (demo_db [(''u1'', demo_incoming\<lparr>SteamId := ''s1'', Ip := ''1.1.1.1'', Ping := 55,
                                  LocationX := 11, LocationY := 12, LastOnline := 1704067200\<rparr>),
                  (''u2'', demo_player ''u2'' ''s2'' ''bob'' [])]) = Some v"
    unfolding c by auto
  moreover from this(1) have "Nickname m = ''new''" "Level m = 9" by (simp_all add: c)
  ultimately show ?thesis using h1 h2 h3 h4 h5 h6 h7 by blast
qed



text \<open>
  C5 (the bulk replacement). \<open>PutWhitelist\<close> drops all previous entries and stores
  each given entry under its \<open>player_uid\<close> if that is non-empty, else under its
  \<open>steam_id\<close> if that is non-empty, and skips an entry that has neither; the keys
  afterwards are the identifiers of the given entries. A list holding only a
  name-only entry leaves the whitelist empty.
\<close>

theorem PutWhitelist_replaces:
  fixes marshal :: "PlayerW \<Rightarrow> 'j + 'b"
  assumes "encodes marshal enc ps" and "ids_fit ps"
  shows "PutWhitelist marshal ps s = (None, s\<lparr>whitelist := Some (replace_all_spec enc ps [])\<rparr>) \<and>
         bucket_keys (replace_all_spec enc ps []) = {k. \<exists>e \<in> set ps. whitelist_identifier e = Some k}"
proof -
  obtain b where b: "(CreateBucketIfNotExists (whitelist s) :: 'j error + 'b bucket) = Inr b"
    by (cases "whitelist s") (simp_all add: CreateBucketIfNotExists_def)
  have "(ForEach clear_step b b :: 'b bucket \<times> 'j error option) = ([], None)"
    by (rule ForEach_clear_all)
  with b put_whitelist_loop_spec[OF assms, of "[]"]
  have "PutWhitelist_tx marshal ps s = Inr (s\<lparr>whitelist := Some (replace_all_spec enc ps [])\<rparr>)"
    by (simp add: PutWhitelist_tx_def)
  moreover have "bucket_keys (replace_all_spec enc ps []) =
      {k. \<exists>e \<in> set ps. whitelist_identifier e = Some k}"
    by (simp add: replace_all_spec_keys) (simp add: bucket_keys_def)
  ultimately show ?thesis
    by (simp add: PutWhitelist_def Update_def)
qed

text \<open>
  Two runs on a whitelist that holds one entry: replacing by a name-only entry leaves
  it empty; replacing by three entries stores the two that have an identifier.
\<close>

theorem PutWhitelist_replaces_witness:
  "encodes demo_marshal_w demo_enc_w [\<lparr>Name = ''Y'', SteamID = [], PlayerUID = []\<rparr>] \<and>
   ids_fit [\<lparr>Name = ''Y'', SteamID = [], PlayerUID = []\<rparr>] \<and>
   PutWhitelist demo_marshal_w [\<lparr>Name = ''Y'', SteamID = [], PlayerUID = []\<rparr>]
       (demo_wl_db (Some [(''X||'', \<lparr>Name = ''X'', SteamID = [], PlayerUID = []\<rparr>)]))
     = (None, demo_wl_db (Some [])) \<and>
   encodes demo_marshal_w demo_enc_w
     [\<lparr>Name = ''Y'', SteamID = [], PlayerUID = []\<rparr>,
      \<lparr>Name = ''A'', SteamID = ''S5'', PlayerUID = []\<rparr>,
      \<lparr>Name = ''B'', SteamID = ''S6'', PlayerUID = ''U7''\<rparr>] \<and>
   ids_fit
     [\<lparr>Name = ''Y'', SteamID = [], PlayerUID = []\<rparr>,
      \<lparr>Name = ''A'', SteamID = ''S5'', PlayerUID = []\<rparr>,
      \<lparr>Name = ''B'', SteamID = ''S6'', PlayerUID = ''U7''\<rparr>] \<and>
   PutWhitelist demo_marshal_w
       [\<lparr>Name = ''Y'', SteamID = [], PlayerUID = []\<rparr>,
        \<lparr>Name = ''A'', SteamID = ''S5'', PlayerUID = []\<rparr>,
        \<lparr>Name = ''B'', SteamID = ''S6'', PlayerUID = ''U7''\<rparr>]
       (demo_wl_db (Some [(''X||'', \<lparr>Name = ''X'', SteamID = [], PlayerUID = []\<rparr>)]))
     = (None, demo_wl_db (Some [(''S5'', \<lparr>Name = ''A'', SteamID = ''S5'', PlayerUID = []\<rparr>),
                                (''U7'', \<lparr>Name = ''B'', SteamID = ''S6'', PlayerUID = ''U7''\<rparr>)]))"
proof -
  let ?y = "\<lparr>Name = ''Y'', SteamID = [], PlayerUID = []\<rparr>"
  let ?a = "\<lparr>Name = ''A'', SteamID = ''S5'', PlayerUID = []\<rparr>"
  let ?b = "\<lparr>Name = ''B'', SteamID = ''S6'', PlayerUID = ''U7''\<rparr>"
  let ?s = "demo_wl_db (Some [(''X||'', \<lparr>Name = ''X'', SteamID = [], PlayerUID = []\<rparr>)])"
  have e1: "encodes demo_marshal_w demo_enc_w [?y]" by (simp add: run_defs)
  have f1: "ids_fit [?y]" by (simp add: run_defs)
  have e2: "encodes demo_marshal_w demo_enc_w [?y, ?a, ?b]" by (simp add: run_defs)
  have f2: "ids_fit [?y, ?a, ?b]" by (simp add: run_defs)
  from PutWhitelist_replaces[OF e1 f1, of ?s]
  have r1: "PutWhitelist demo_marshal_w [?y] ?s = (None, demo_wl_db (Some []))"
    by (simp add: demo_wl_db_def whitelist_identifier_def)
  from PutWhitelist_replaces[OF e2 f2, of ?s]
  have r2: "PutWhitelist demo_marshal_w [?y, ?a, ?b] ?s
     = (None, demo_wl_db (Some [(''S5'', ?a), (''U7'', ?b)]))"
    by (simp add: demo_wl_db_def whitelist_identifier_def demo_enc_w_def)
  from e1 f1 r1 e2 f2 r2 show ?thesis by simp
qed

text \<open>
  C6 (placeholder keys are left out of the listing only). The output of
  \<open>ListPlayers\<close> is the decoding of exactly the pairs whose key does not contain
  \<open>000000\<close>; \<open>GetPlayer\<close> with a key that contains the pattern returns the record
  stored there; and \<open>GetPlayer\<close> fails with \<open>ErrNoRecord\<close> exactly when the key
  is not in the collection.
\<close>

theorem ListPlayers_GetPlayer_placeholder:
  fixes unmarshal_terse :: "'b \<Rightarrow> 'j + 'tp" and unmarshal :: "'b \<Rightarrow> 'j + 'p"
  assumes "players s = Some b"
  shows "(\<forall>out. ListPlayers unmarshal_terse s = Inr out \<longrightarrow>
            map Inr out = map (unmarshal_terse \<circ> snd) (filter (\<lambda>kv. \<not> Contains (fst kv) ''000000'') b)) \<and>
         (\<forall>k v p. Contains k ''000000'' \<and> Get k b = Some v \<and> unmarshal v = Inr p \<longrightarrow>
            GetPlayer unmarshal k s = Inr p) \<and>
         (\<forall>k. GetPlayer unmarshal k s = Inl ErrNoRecord \<longleftrightarrow> k \<notin> bucket_keys b)"
proof (intro conjI allI impI)
  fix out assume "ListPlayers unmarshal_terse s = Inr out"
  with assms have "ForEach (list_step unmarshal_terse) b [] = (out, None)"
    by (auto simp: ListPlayers_def View_def split: prod.splits option.splits)
  from ForEach_list_step[OF this]
  show "map Inr out = map (unmarshal_terse \<circ> snd) (filter (\<lambda>kv. \<not> Contains (fst kv) ''000000'') b)"
    by simp
next
  fix k v p assume "Contains k ''000000'' \<and> Get k b = Some v \<and> unmarshal v = Inr p"
  with assms show "GetPlayer unmarshal k s = Inr p"
    by (simp add: GetPlayer_def View_def)
next
  fix k
  have "Get k b = None \<longleftrightarrow> k \<notin> bucket_keys b"
    by (simp add: Get_def bucket_keys_def map_of_eq_None_iff)
  then show "GetPlayer unmarshal k s = Inl ErrNoRecord \<longleftrightarrow> k \<notin> bucket_keys b"
    using assms
    by (auto simp: GetPlayer_def View_def split: option.splits sum.splits)
qed

text \<open>
  A collection with a placeholder key and an ordinary one: the listing has the
  ordinary record only, the exact lookup finds the placeholder one, and a key that is
  not stored gives \<open>ErrNoRecord\<close>.
\<close>

theorem ListPlayers_GetPlayer_placeholder_witness:
  "players (demo_db [(''u000000x'', demo_player ''u000000x'' [] ''tmp'' []), (''u1'', demo_existing)])
     = Some [(''u000000x'', demo_player ''u000000x'' [] ''tmp'' []), (''u1'', demo_existing)] \<and>
   ListPlayers demo_terse
       (demo_db [(''u000000x'', demo_player ''u000000x'' [] ''tmp'' []), (''u1'', demo_existing)])
     = Inr [(''u1'', ''old'')] \<and>
   Contains ''u000000x'' ''000000'' \<and>
   GetPlayer demo_unmarshal ''u000000x''
       (demo_db [(''u000000x'', demo_player ''u000000x'' [] ''tmp'' []), (''u1'', demo_existing)])
     = Inr (demo_player ''u000000x'' [] ''tmp'' []) \<and>
   GetPlayer demo_unmarshal ''u9''
       (demo_db [(''u000000x'', demo_player ''u000000x'' [] ''tmp'' []), (''u1'', demo_existing)])
     = Inl ErrNoRecord \<and>
   ''u9'' \<notin> bucket_keys [(''u000000x'', demo_player ''u000000x'' [] ''tmp'' []), (''u1'', demo_existing)]"
proof -
  have h: "players (demo_db [(''u000000x'', demo_player ''u000000x'' [] ''tmp'' []), (''u1'', demo_existing)])
     = Some [(''u000000x'', demo_player ''u000000x'' [] ''tmp'' []), (''u1'', demo_existing)]"
    by (simp add: demo_db_def)
  have l: "ListPlayers demo_terse
       (demo_db [(''u000000x'', demo_player ''u000000x'' [] ''tmp'' []), (''u1'', demo_existing)])
     = Inr [(''u1'', ''old'')]"
    by (simp add: run_defs)
  have g: "Contains ''u000000x'' ''000000'' \<and>
      Get ''u000000x'' [(''u000000x'', demo_player ''u000000x'' [] ''tmp'' []), (''u1'', demo_existing)]
        = Some (demo_player ''u000000x'' [] ''tmp'' []) \<and>
      demo_unmarshal (demo_player ''u000000x'' [] ''tmp'' []) = Inr (demo_player ''u000000x'' [] ''tmp'' [])"
    by (simp add: run_defs)
  have k: "''u9'' \<notin> bucket_keys [(''u000000x'', demo_player ''u000000x'' [] ''tmp'' []), (''u1'', demo_existing)]"
    by (simp add: bucket_keys_def)
  note t = ListPlayers_GetPlayer_placeholder[OF h, of demo_terse demo_unmarshal]
  from t g have "GetPlayer demo_unmarshal ''u000000x''
       (demo_db [(''u000000x'', demo_player ''u000000x'' [] ''tmp'' []), (''u1'', demo_existing)])
     = Inr (demo_player ''u000000x'' [] ''tmp'' [])"
    by blast
  moreover from t k have "GetPlayer demo_unmarshal ''u9''
       (demo_db [(''u000000x'', demo_player ''u000000x'' [] ''tmp'' []), (''u1'', demo_existing)])
     = Inl ErrNoRecord"
    by blast
  ultimately show ?thesis using h l g k by simp
qed



text \<open>
  C8 (the results of a removal). Without a whitelist collection \<open>RemoveWhitelist\<close>
  fails with the missing-bucket error while \<open>ListWhitelist\<close> returns the empty list
  and no error. With a collection whose values all decode, \<open>RemoveWhitelist\<close> fails
  with the not-found error exactly when no stored entry matches the given one, and
  otherwise deletes the first matching entry.
\<close>

theorem RemoveWhitelist_results:
  fixes unmarshal :: "'b \<Rightarrow> 'j + PlayerW"
  shows "(whitelist s = None \<longrightarrow>
            RemoveWhitelist unmarshal player s = (Some WhitelistBucketMissing, s) \<and>
            ListWhitelist unmarshal s = ([], None)) \<and>
         (\<forall>b. whitelist s = Some b \<and> all_decode unmarshal b \<longrightarrow>
            (case first_match unmarshal player b of
               None \<Rightarrow> RemoveWhitelist unmarshal player s = (Some PlayerNotInWhitelist, s)
             | Some k \<Rightarrow> RemoveWhitelist unmarshal player s =
                          (None, s\<lparr>whitelist := Some (filter (\<lambda>kv. fst kv \<noteq> k) b)\<rparr>)) \<and>
            (first_match unmarshal player b = None \<longleftrightarrow>
               (\<forall>kv \<in> set b. \<not> entry_matches unmarshal player kv)))"
proof -
  have "first_match unmarshal player b = None \<longleftrightarrow>
          (\<forall>kv \<in> set b. \<not> entry_matches unmarshal player kv)" for b :: "'b bucket"
    by (rule first_match_None)
  moreover have "whitelist s = None \<longrightarrow>
            RemoveWhitelist unmarshal player s = (Some WhitelistBucketMissing, s) \<and>
            ListWhitelist unmarshal s = ([], None)"
    by (simp add: RemoveWhitelist_def Update_def RemoveWhitelist_tx_def ListWhitelist_def View_def)
  moreover have "whitelist s = Some b \<and> all_decode unmarshal b \<longrightarrow>
            (case first_match unmarshal player b of
               None \<Rightarrow> RemoveWhitelist unmarshal player s = (Some PlayerNotInWhitelist, s)
             | Some k \<Rightarrow> RemoveWhitelist unmarshal player s =
                          (None, s\<lparr>whitelist := Some (filter (\<lambda>kv. fst kv \<noteq> k) b)\<rparr>))" for b
    by (simp add: RemoveWhitelist_def Update_def RemoveWhitelist_tx_def
        findPlayerKey_first_match Delete_def split: option.splits)
  ultimately show ?thesis by blast
qed

text \<open>
  Three runs: no collection; a collection where the given steam id matches the second
  entry, which is deleted; a collection where nothing matches.
\<close>

theorem RemoveWhitelist_results_witness:
  "whitelist (demo_wl_db None) = None \<and>
   RemoveWhitelist demo_unmarshal_w \<lparr>Name = ''X'', SteamID = [], PlayerUID = []\<rparr> (demo_wl_db None)
     = (Some WhitelistBucketMissing, demo_wl_db None) \<and>
   ListWhitelist demo_unmarshal_w (demo_wl_db None) = ([], None) \<and>
   all_decode demo_unmarshal_w [(''X||'', \<lparr>Name = ''X'', SteamID = [], PlayerUID = []\<rparr>),
                                (''Z|S9|'', \<lparr>Name = ''Z'', SteamID = ''S9'', PlayerUID = []\<rparr>)] \<and>
   RemoveWhitelist demo_unmarshal_w \<lparr>Name = [], SteamID = ''S9'', PlayerUID = []\<rparr>
       (demo_wl_db (Some [(''X||'', \<lparr>Name = ''X'', SteamID = [], PlayerUID = []\<rparr>),
                          (''Z|S9|'', \<lparr>Name = ''Z'', SteamID = ''S9'', PlayerUID = []\<rparr>)]))
     = (None, demo_wl_db (Some [(''X||'', \<lparr>Name = ''X'', SteamID = [], PlayerUID = []\<rparr>)])) \<and>
   RemoveWhitelist demo_unmarshal_w \<lparr>Name = ''Q'', SteamID = [], PlayerUID = ''U1''\<rparr>
       (demo_wl_db (Some [(''X||'', \<lparr>Name = ''X'', SteamID = [], PlayerUID = []\<rparr>),
                          (''Z|S9|'', \<lparr>Name = ''Z'', SteamID = ''S9'', PlayerUID = []\<rparr>)]))
     = (Some PlayerNotInWhitelist,
        demo_wl_db (Some [(''X||'', \<lparr>Name = ''X'', SteamID = [], PlayerUID = []\<rparr>),
                          (''Z|S9|'', \<lparr>Name = ''Z'', SteamID = ''S9'', PlayerUID = []\<rparr>)]))"
proof -
  let ?e1 = "\<lparr>Name = ''X'', SteamID = [], PlayerUID = []\<rparr>"
  let ?z = "\<lparr>Name = ''Z'', SteamID = ''S9'', PlayerUID = []\<rparr>"
  let ?b = "[(''X||'', ?e1), (''Z|S9|'', ?z)]"
  let ?p = "\<lparr>Name = [], SteamID = ''S9'', PlayerUID = []\<rparr>"
  let ?q = "\<lparr>Name = ''Q'', SteamID = [], PlayerUID = ''U1''\<rparr>"
  have n: "whitelist (demo_wl_db None) = (None :: PlayerW bucket option)"
    by (simp add: demo_wl_db_def)
  have w: "whitelist (demo_wl_db (Some ?b)) = Some ?b" by (simp add: demo_wl_db_def)
  have d: "all_decode demo_unmarshal_w ?b" by (simp add: run_defs)
  have fp: "first_match demo_unmarshal_w ?p ?b = Some ''Z|S9|''" by (simp add: run_defs)
  have fq: "first_match demo_unmarshal_w ?q ?b = None" by (simp add: run_defs)
  from RemoveWhitelist_results[of "demo_wl_db None" demo_unmarshal_w ?e1] n
  have r0: "RemoveWhitelist demo_unmarshal_w ?e1 (demo_wl_db None)
              = (Some WhitelistBucketMissing, demo_wl_db None) \<and>
            ListWhitelist demo_unmarshal_w (demo_wl_db None) = ([], None)"
    by blast
  from RemoveWhitelist_results[of "demo_wl_db (Some ?b)" demo_unmarshal_w ?p] w d fp
  have r1: "RemoveWhitelist demo_unmarshal_w ?p (demo_wl_db (Some ?b))
              = (None, demo_wl_db (Some [(''X||'', ?e1)]))"
    by (simp add: demo_wl_db_def)
  from RemoveWhitelist_results[of "demo_wl_db (Some ?b)" demo_unmarshal_w ?q] w d fq
  have r2: "RemoveWhitelist demo_unmarshal_w ?q (demo_wl_db (Some ?b))
              = (Some PlayerNotInWhitelist, demo_wl_db (Some ?b))"
    by simp
  from n r0 d r1 r2 show ?thesis by simp
qed

text \<open>
  C9 (the online update only adds and updates). After \<open>PutPlayersOnline\<close>, whatever
  it returns, every key that was stored is still stored, and the bytes under every
  key that is not the uid of a snapshot of the batch are unchanged; the whitelist is
  untouched.
\<close>

theorem PutPlayersOnline_frame:
  assumes "PutPlayersOnline unmarshal marshal clock ps s = (r, s')"
  shows "(\<forall>uid. stored_player uid s \<noteq> None \<longrightarrow> stored_player uid s' \<noteq> None) \<and>
         (\<forall>uid. uid \<notin> oPlayerUid ` set ps \<longrightarrow> stored_player uid s' = stored_player uid s) \<and>
         whitelist s' = whitelist s"
proof (cases "PutPlayersOnline_tx unmarshal marshal clock ps s")
  case (Inl e)
  with assms have "s' = s" by (simp add: PutPlayersOnline_def Update_def)
  then show ?thesis by simp
next
  case (Inr s1)
  with assms have s1: "s' = s1" by (simp add: PutPlayersOnline_def Update_def)
  show ?thesis
  proof (cases "players s")
    case None
    with Inr s1 have "s' = s" by (simp add: PutPlayersOnline_tx_def split: if_splits)
    then show ?thesis by simp
  next
    case (Some b)
    with Inr s1 obtain b' where b': "put_online_loop unmarshal marshal clock 0 ps b = Inr b'"
      and s': "s' = s\<lparr>players := Some b'\<rparr>"
      by (auto simp: PutPlayersOnline_tx_def split: sum.splits)
    from put_online_loop_frame[OF b'] Some s' show ?thesis
      by (simp add: stored_player_def Get_def)
  qed
qed

text \<open>
  A run with snapshots for \<open>u2\<close> (stored) and \<open>u3\<close> (new): the record under
  \<open>u1\<close> is what it was.
\<close>

theorem PutPlayersOnline_frame_witness:
  "PutPlayersOnline demo_unmarshal demo_marshal demo_clock
       [demo_online ''u2'' ''76561198000002'', demo_online ''u3'' ''76561198000003'']
       (demo_db [(''u1'', demo_existing), (''u2'', demo_player ''u2'' [] ''bob'' [])])
     = (None, demo_db
         [(''u1'', demo_existing),
          (''u2'', (demo_player ''u2'' ''76561198000002'' ''bob'' ''10.0.0.9'')
                     \<lparr>Ping := 35, LocationX := 8, LocationY := 9, Level := 12,
                      LastOnline := 1700000000\<rparr>),
          (''u3'', zeroPlayer\<lparr>PlayerUid := ''u3'', SteamId := ''76561198000003'',
                      Nickname := ''nick'', Ip := ''10.0.0.9'', Ping := 35, LocationX := 8,
                      LocationY := 9, Level := 12, LastOnline := 1700000001\<rparr>)]) \<and>
   stored_player ''u1'' (demo_db [(''u1'', demo_existing), (''u2'', demo_player ''u2'' [] ''bob'' [])])
     \<noteq> None \<and>
   ''u1'' \<notin> oPlayerUid ` set [demo_online ''u2'' ''76561198000002'', demo_online ''u3'' ''76561198000003''] \<and>
   stored_player ''u1''
     (snd (PutPlayersOnline demo_unmarshal demo_marshal demo_clock
       [demo_online ''u2'' ''76561198000002'', demo_online ''u3'' ''76561198000003'']
       (demo_db [(''u1'', demo_existing), (''u2'', demo_player ''u2'' [] ''bob'' [])])))
     = Some demo_existing"
proof -
  have h: "PutPlayersOnline demo_unmarshal demo_marshal demo_clock
       [demo_online ''u2'' ''76561198000002'', demo_online ''u3'' ''76561198000003'']
       (demo_db [(''u1'', demo_existing), (''u2'', demo_player ''u2'' [] ''bob'' [])])
     = (None, demo_db
         [(''u1'', demo_existing),
          (''u2'', (demo_player ''u2'' ''76561198000002'' ''bob'' ''10.0.0.9'')
                     \<lparr>Ping := 35, LocationX := 8, LocationY := 9, Level := 12,
                      LastOnline := 1700000000\<rparr>),
          (''u3'', zeroPlayer\<lparr>PlayerUid := ''u3'', SteamId := ''76561198000003'',
                      Nickname := ''nick'', Ip := ''10.0.0.9'', Ping := 35, LocationX := 8,
                      LocationY := 9, Level := 12, LastOnline := 1700000001\<rparr>)])"
    by (simp add: run_defs)
  have a: "stored_player ''u1'' (demo_db [(''u1'', demo_existing), (''u2'', demo_player ''u2'' [] ''bob'' [])])
     = Some demo_existing"
    by (simp add: run_defs)
  have n: "''u1'' \<notin> oPlayerUid ` set [demo_online ''u2'' ''76561198000002'', demo_online ''u3'' ''76561198000003'']"
    by (simp add: run_defs)
  from PutPlayersOnline_frame[OF h] n a
  have "stored_player ''u1'' (demo_db
         [(''u1'', demo_existing),
          (''u2'', (demo_player ''u2'' ''76561198000002'' ''bob'' ''10.0.0.9'')
                     \<lparr>Ping := 35, LocationX := 8, LocationY := 9, Level := 12,
                      LastOnline := 1700000000\<rparr>),
          (''u3'', zeroPlayer\<lparr>PlayerUid := ''u3'', SteamId := ''76561198000003'',
                      Nickname := ''nick'', Ip := ''10.0.0.9'', Ping := 35, LocationX := 8,
                      LocationY := 9, Level := 12, LastOnline := 1700000001\<rparr>)]) = Some demo_existing"
    by metis
  with h a n show ?thesis by simp
qed

text \<open>
  C10 (the entry with no identifier). \<open>matchesCriteria\<close> is false for the entry whose
  three fields are empty, against every stored entry. So, on a whitelist whose values
  all decode, \<open>RemoveWhitelist\<close> with that entry fails with the not-found error, and
  \<open>AddWhitelist\<close> with it stores it under the key made of two bars.
\<close>

theorem all_empty_entry_never_matches:
  fixes unmarshal :: "'b \<Rightarrow> 'j + PlayerW"
  shows "matchesCriteria e \<lparr>Name = [], SteamID = [], PlayerUID = []\<rparr> = False \<and>
         (\<forall>b. whitelist s = Some b \<and> all_decode unmarshal b \<longrightarrow>
            RemoveWhitelist unmarshal \<lparr>Name = [], SteamID = [], PlayerUID = []\<rparr> s =
              (Some PlayerNotInWhitelist, s)) \<and>
         (\<forall>b playerData.
            b = (case whitelist s of None \<Rightarrow> [] | Some b0 \<Rightarrow> b0) \<and> all_decode unmarshal b \<and>
            marshal \<lparr>Name = [], SteamID = [], PlayerUID = []\<rparr> = Inr playerData \<longrightarrow>
            AddWhitelist unmarshal marshal \<lparr>Name = [], SteamID = [], PlayerUID = []\<rparr> s =
              (None, s\<lparr>whitelist := Some (put_raw ''||'' playerData b)\<rparr>))"
proof -
  let ?p = "\<lparr>Name = [], SteamID = [], PlayerUID = []\<rparr>"
  have nm: "first_match unmarshal ?p b = None" for b :: "'b bucket"
    by (simp add: first_match_None entry_matches_def matchesCriteria_empty split: sum.splits)
  have put: "(Put ''||'' v b :: 'j error + 'b bucket) = Inr (put_raw ''||'' v b)" for v b
    by (simp add: Put_def MaxKeySize_def)
  show ?thesis
    by (auto simp: matchesCriteria_empty RemoveWhitelist_def Update_def RemoveWhitelist_tx_def
        AddWhitelist_def AddWhitelist_tx_def CreateBucketIfNotExists_def
        findPlayerKey_first_match nm put split: option.splits)
qed

text \<open>
  A run on a whitelist with one entry: removing the all-empty entry finds nothing,
  adding it stores it under \<open>||\<close>.
\<close>

theorem all_empty_entry_never_matches_witness:
  "matchesCriteria \<lparr>Name = [], SteamID = [], PlayerUID = []\<rparr>
     \<lparr>Name = [], SteamID = [], PlayerUID = []\<rparr> = False \<and>
   all_decode demo_unmarshal_w [(''X||'', \<lparr>Name = ''X'', SteamID = [], PlayerUID = []\<rparr>)] \<and>
   RemoveWhitelist demo_unmarshal_w \<lparr>Name = [], SteamID = [], PlayerUID = []\<rparr>
       (demo_wl_db (Some [(''X||'', \<lparr>Name = ''X'', SteamID = [], PlayerUID = []\<rparr>)]))
     = (Some PlayerNotInWhitelist,
        demo_wl_db (Some [(''X||'', \<lparr>Name = ''X'', SteamID = [], PlayerUID = []\<rparr>)])) \<and>
   demo_marshal_w \<lparr>Name = [], SteamID = [], PlayerUID = []\<rparr>
     = Inr \<lparr>Name = [], SteamID = [], PlayerUID = []\<rparr> \<and>
   AddWhitelist demo_unmarshal_w demo_marshal_w \<lparr>Name = [], SteamID = [], PlayerUID = []\<rparr>
       (demo_wl_db (Some [(''X||'', \<lparr>Name = ''X'', SteamID = [], PlayerUID = []\<rparr>)]))
     = (None, demo_wl_db (Some [(''X||'', \<lparr>Name = ''X'', SteamID = [], PlayerUID = []\<rparr>),
                                (''||'', \<lparr>Name = [], SteamID = [], PlayerUID = []\<rparr>)]))"
proof -
  let ?e1 = "\<lparr>Name = ''X'', SteamID = [], PlayerUID = []\<rparr>"
  let ?o = "\<lparr>Name = [], SteamID = [], PlayerUID = []\<rparr>"
  let ?b = "[(''X||'', ?e1)]"
  have w: "whitelist (demo_wl_db (Some ?b)) = Some ?b" by (simp add: demo_wl_db_def)
  have d: "all_decode demo_unmarshal_w ?b" by (simp add: run_defs)
  have m: "demo_marshal_w ?o = Inr ?o" by (simp add: demo_marshal_w_def)
  note t = all_empty_entry_never_matches[of ?o "demo_wl_db (Some ?b)" demo_unmarshal_w demo_marshal_w]
  from t have r0: "matchesCriteria ?o ?o = False" by blast
  from t w d have r1: "RemoveWhitelist demo_unmarshal_w ?o (demo_wl_db (Some ?b))
      = (Some PlayerNotInWhitelist, demo_wl_db (Some ?b))"
    by blast
  from t w d m have "AddWhitelist demo_unmarshal_w demo_marshal_w ?o (demo_wl_db (Some ?b))
      = (None, (demo_wl_db (Some ?b))\<lparr>whitelist := Some (put_raw ''||'' ?o ?b)\<rparr>)"
    by simp
  then have r2: "AddWhitelist demo_unmarshal_w demo_marshal_w ?o (demo_wl_db (Some ?b))
      = (None, demo_wl_db (Some [(''X||'', ?e1), (''||'', ?o)]))"
    by (simp add: demo_wl_db_def)
  from r0 d r1 m r2 show ?thesis by simp
qed

end
